theory Spec2Isabelle
  imports Complex_Main "HOL-Library.Sublist"
begin

section \<open>Python values\<close>

text \<open>
  A Python \<open>str\<close> is a sequence of Unicode code points and \<open>len\<close> counts code points,
  so a string is a list of code point numbers. \<open>lit\<close> turns an ASCII literal of the source
  into such a list.
\<close>

type_synonym pystr = "nat list"

definition lit :: "string \<Rightarrow> pystr" where
  "lit s = map of_char s"

text \<open>
  The values \<open>json.load\<close> and \<open>response.json()\<close> produce: \<open>None\<close>, booleans, integers,
  strings, lists and dictionaries with string keys. JSON numbers with a fraction or an
  exponent (Python floats) are not modelled.
\<close>

datatype pyval =
    PNone
  | PBool bool
  | PInt int
  | PStr pystr
  | PList "pyval list"
  | PDict "(pystr \<times> pyval) list"

text \<open>A top-level dictionary with string keys (\<open>self.settings\<close>, \<open>joke_data\<close>).\<close>

type_synonym dict = "pystr \<rightharpoonup> pyval"

text \<open>
  Exceptions raised implicitly by the interpreter or by a library call. \<open>Raised m\<close> is an
  exception of a library (requests, json, the file system) whose \<open>str(e)\<close> is \<open>m\<close>.
\<close>

datatype exn =
    KeyError pystr
  | TypeError string pyval
  | AttributeError string pyval
  | Raised pystr

text \<open>
  Text produced by the CPython runtime, which is not code of this repository, is taken as a
  parameter: \<open>str_of\<close> is \<open>str(v)\<close> for a value that is not a string, \<open>lower\<close> is
  \<open>str.lower\<close>, \<open>exc_text\<close> is \<open>str(e)\<close> for an interpreter exception.
\<close>

record runtime =
  str_of :: "pyval \<Rightarrow> pystr"
  lower :: "pystr \<Rightarrow> pystr"
  exc_text :: "exn \<Rightarrow> pystr"

definition py_format :: "runtime \<Rightarrow> pyval \<Rightarrow> pystr" where
  "py_format py v = (case v of PStr s \<Rightarrow> s | _ \<Rightarrow> str_of py v)"

definition str_exn :: "runtime \<Rightarrow> exn \<Rightarrow> pystr" where
  "str_exn py e = (case e of Raised m \<Rightarrow> m | _ \<Rightarrow> exc_text py e)"

fun truthy :: "pyval \<Rightarrow> bool" where
  "truthy PNone = False"
| "truthy (PBool b) = b"
| "truthy (PInt i) = (i \<noteq> 0)"
| "truthy (PStr s) = (s \<noteq> [])"
| "truthy (PList xs) = (xs \<noteq> [])"
| "truthy (PDict kvs) = (kvs \<noteq> [])"

fun bind_exn :: "exn + 'a \<Rightarrow> ('a \<Rightarrow> exn + 'b) \<Rightarrow> exn + 'b" where
  "bind_exn (Inl e) f = Inl e"
| "bind_exn (Inr x) f = f x"

text \<open>\<open>d[k]\<close> raises \<open>KeyError\<close> on a missing key; \<open>d.get(k, default)\<close> does not.\<close>

definition getitem :: "dict \<Rightarrow> pystr \<Rightarrow> exn + pyval" where
  "getitem d k = (case d k of None \<Rightarrow> Inl (KeyError k) | Some v \<Rightarrow> Inr v)"

definition dict_get :: "dict \<Rightarrow> pystr \<Rightarrow> pyval \<Rightarrow> pyval" where
  "dict_get d k dflt = (case d k of None \<Rightarrow> dflt | Some v \<Rightarrow> v)"

text \<open>
  \<open>sep.join(v)\<close>: \<open>v\<close> is iterated; every item must be a string. A string iterates over
  its characters, a dictionary over its keys; \<open>None\<close>, a boolean or an integer is not
  iterable.
\<close>

fun join_strs :: "pystr \<Rightarrow> pystr list \<Rightarrow> pystr" where
  "join_strs sep [] = []"
| "join_strs sep [x] = x"
| "join_strs sep (x # y # ys) = x @ sep @ join_strs sep (y # ys)"

fun str_items :: "pyval list \<Rightarrow> exn + pystr list" where
  "str_items [] = Inr []"
| "str_items (PStr s # vs) = bind_exn (str_items vs) (\<lambda>ss. Inr (s # ss))"
| "str_items (v # vs) = Inl (TypeError ''join'' v)"

fun py_join :: "pystr \<Rightarrow> pyval \<Rightarrow> exn + pystr" where
  "py_join sep (PList vs) = bind_exn (str_items vs) (\<lambda>ss. Inr (join_strs sep ss))"
| "py_join sep (PStr s) = Inr (join_strs sep (map (\<lambda>c. [c]) s))"
| "py_join sep (PDict kvs) = Inr (join_strs sep (map fst kvs))"
| "py_join sep v = Inl (TypeError ''join'' v)"

section \<open>The request URL\<close>

text \<open>
  Lines 348 to 361 of \<open>fetch_and_show_joke\<close>: the URL is built from \<open>self.settings\<close>
  inside the \<open>try\<close> block, so an exception here ends the cycle before any request.
\<close>

definition base_url :: pystr where
  "base_url = lit ''https://v2.jokeapi.dev/joke/''"

definition blacklist_query :: pystr where
  "blacklist_query = lit ''?blacklistFlags=religious,racist,sexist,explicit''"

definition request_url :: "runtime \<Rightarrow> dict \<Rightarrow> exn + pystr" where
  "request_url py settings =
     bind_exn (getitem settings (lit ''categories'')) (\<lambda>cats.
     bind_exn (py_join (lit '','') cats) (\<lambda>categories.
     let url = base_url @ categories @ blacklist_query in
     bind_exn (getitem settings (lit ''safe_mode'')) (\<lambda>safe_mode.
     let url = (if truthy safe_mode then url @ lit ''&safe-mode'' else url) in
     bind_exn (getitem settings (lit ''joke_type'')) (\<lambda>joke_type.
     bind_exn (if joke_type \<noteq> PStr (lit ''Any'')
               then (case joke_type of
                       PStr t \<Rightarrow> Inr (url @ lit ''&type='' @ lower py t)
                     | _ \<Rightarrow> Inl (AttributeError ''lower'' joke_type))
               else Inr url) (\<lambda>url.
     bind_exn (getitem settings (lit ''language'')) (\<lambda>language.
     Inr (if language \<noteq> PStr (lit ''en'')
          then url @ lit ''&lang='' @ py_format py language
          else url)))))))"

text \<open>The part of a URL before its query string.\<close>

definition url_path :: "pystr \<Rightarrow> pystr" where
  "url_path url = takeWhile (\<lambda>c. c \<noteq> of_char CHR ''?'') url"

section \<open>Settings\<close>

text \<open>The default settings of \<open>JokeNotifier.__init__\<close> (lines 64 to 73).\<close>

definition default_settings :: dict where
  "default_settings =
     [lit ''frequency'' \<mapsto> PInt 30,
      lit ''categories'' \<mapsto> PList [PStr (lit ''Any'')],
      lit ''safe_mode'' \<mapsto> PBool True,
      lit ''joke_type'' \<mapsto> PStr (lit ''Any''),
      lit ''language'' \<mapsto> PStr (lit ''en''),
      lit ''autostart'' \<mapsto> PBool False,
      lit ''notification_duration'' \<mapsto> PInt 10,
      lit ''max_history'' \<mapsto> PInt 15]"

definition schema_keys :: "pystr list" where
  "schema_keys =
     [lit ''frequency'', lit ''categories'', lit ''safe_mode'', lit ''joke_type'',
      lit ''language'', lit ''autostart'', lit ''notification_duration'', lit ''max_history'']"

text \<open>
  A settings dictionary that has the types of the Settings schema: every key of the schema
  is present, with an integer, a boolean, a string or a list of strings as the schema says.
\<close>

fun is_int :: "pyval option \<Rightarrow> bool" where
  "is_int (Some (PInt i)) = True"
| "is_int v = False"

fun is_bool :: "pyval option \<Rightarrow> bool" where
  "is_bool (Some (PBool b)) = True"
| "is_bool v = False"

fun is_str :: "pyval option \<Rightarrow> bool" where
  "is_str (Some (PStr s)) = True"
| "is_str v = False"

fun is_str_list :: "pyval option \<Rightarrow> bool" where
  "is_str_list (Some (PList vs)) = list_all (\<lambda>v. is_str (Some v)) vs"
| "is_str_list v = False"

definition is_settings :: "dict \<Rightarrow> bool" where
  "is_settings s \<longleftrightarrow>
     is_int (s (lit ''frequency'')) \<and>
     is_str_list (s (lit ''categories'')) \<and>
     is_bool (s (lit ''safe_mode'')) \<and>
     is_str (s (lit ''joke_type'')) \<and>
     is_str (s (lit ''language'')) \<and>
     is_bool (s (lit ''autostart'')) \<and>
     is_int (s (lit ''notification_duration'')) \<and>
     is_int (s (lit ''max_history''))"

section \<open>A runtime for examples\<close>

text \<open>
  \<open>sample_runtime\<close> agrees with CPython on \<open>None\<close>, booleans and integers and on ASCII
  letters; it is used to evaluate the model on concrete inputs only.
\<close>

fun digits :: "nat \<Rightarrow> pystr" where
  "digits n = (if n < 10 then [48 + n] else digits (n div 10) @ [48 + n mod 10])"

definition sample_str_of :: "pyval \<Rightarrow> pystr" where
  "sample_str_of v =
     (case v of
        PNone \<Rightarrow> lit ''None''
      | PBool b \<Rightarrow> (if b then lit ''True'' else lit ''False'')
      | PInt i \<Rightarrow> (if i < 0 then lit ''-'' @ digits (nat (- i)) else digits (nat i))
      | _ \<Rightarrow> [])"

definition sample_lower :: "pystr \<Rightarrow> pystr" where
  "sample_lower s = map (\<lambda>c. if 65 \<le> c \<and> c \<le> 90 then c + 32 else c) s"

definition sample_runtime :: runtime where
  "sample_runtime = \<lparr> str_of = sample_str_of, lower = sample_lower, exc_text = (\<lambda>e. []) \<rparr>"

section \<open>The poll loop as a state machine\<close>

text \<open>
  \<open>joke_notification_loop\<close> (lines 315 to 340) runs on its own thread and shares
  \<open>self.is_running\<close> and \<open>self.settings\<close> with the interface thread. A program point
  of the loop is a place where it is about to read shared state or the clock, or to act;
  the wait loop carries the deadline \<open>next_joke_time\<close>.
  \<^item> \<open>First_fetch\<close>: line 317, the first cycle;
  \<^item> \<open>Outer_test\<close>: line 320, \<open>while self.is_running\<close>;
  \<^item> \<open>Set_deadline\<close>: line 322;
  \<^item> \<open>Wait_clock\<close>, \<open>Wait_flag\<close>: the two operands of the test of line 325;
  \<^item> \<open>Wait_guard\<close>: line 326;
  \<^item> \<open>Countdown\<close>: lines 330 to 333;
  \<^item> \<open>Sleep\<close>: line 336;
  \<^item> \<open>After_wait\<close>: line 339;
  \<^item> \<open>Next_fetch\<close>: line 340;
  \<^item> \<open>Returned\<close>: the function has returned;
  \<^item> \<open>Crashed\<close>: an exception left the function and ended the thread.
\<close>

datatype pc =
    First_fetch
  | Outer_test
  | Set_deadline
  | Wait_clock real
  | Wait_flag real
  | Wait_guard real
  | Countdown real
  | Sleep real
  | After_wait
  | Next_fetch
  | Returned
  | Crashed exn

section \<open>The window object\<close>

text \<open>The dictionary \<open>joke_with_meta\<close> of lines 390 to 395.\<close>

record joke =
  joke_text :: pyval
  joke_category :: pyval
  joke_time :: pystr
  joke_id :: pyval

text \<open>
  The fields of \<open>JokeNotifier\<close> that the operations below read or write. \<open>threads\<close> are
  the loop threads started so far, each at its program point (\<open>self.joke_thread\<close> is the
  last of them). \<open>tray_toggle_action\<close> is \<open>None\<close> until \<open>setup_system_tray\<close> has
  created the attribute. \<open>autostart_timer\<close> is the pending one-second timer of line 111.
  The list widget that mirrors \<open>last_jokes\<close> is not modelled.
\<close>

record app =
  is_running :: bool
  threads :: "pc list"
  last_jokes :: "joke list"
  max_stored_jokes :: pyval
  settings :: dict
  status_label :: pystr
  next_joke_label :: pystr
  toggle_button :: pystr
  status_indicator :: pystr
  tray_toggle_action :: "pystr option"
  autostart_timer :: bool

text \<open>The state after \<open>create_widgets\<close> (line 101), before the settings file is read.\<close>

definition created :: app where
  "created =
     \<lparr> is_running = False,
       threads = [],
       last_jokes = [],
       max_stored_jokes = PInt 15,
       settings = default_settings,
       status_label = lit ''Ready to start'',
       next_joke_label = [],
       toggle_button = lit ''Start Notifications'',
       status_indicator = lit ''red'',
       tray_toggle_action = None,
       autostart_timer = False \<rparr>"

subsection \<open>Starting and stopping\<close>

definition start_notifications :: "app \<Rightarrow> app" where
  "start_notifications st =
     st \<lparr> is_running := True,
          status_label := lit ''Running - Sending notifications'',
          toggle_button := lit ''Stop Notifications'',
          status_indicator := lit ''green'',
          tray_toggle_action := map_option (\<lambda>t. lit ''Stop Notifications'') (tray_toggle_action st),
          threads := threads st @ [First_fetch] \<rparr>"

definition stop_notifications :: "app \<Rightarrow> app" where
  "stop_notifications st =
     st \<lparr> is_running := False,
          status_label := lit ''Stopped'',
          toggle_button := lit ''Start Notifications'',
          next_joke_label := [],
          status_indicator := lit ''red'',
          tray_toggle_action := map_option (\<lambda>t. lit ''Start Notifications'') (tray_toggle_action st) \<rparr>"


subsection \<open>The history\<close>

text \<open>
  \<open>len(xs) > cap\<close> and \<open>xs[:cap]\<close> accept an integer or a boolean (\<open>True\<close> is 1) and
  raise \<open>TypeError\<close> for any other value. A negative stop of a slice counts from the end.
\<close>

fun as_int :: "pyval \<Rightarrow> int option" where
  "as_int (PInt i) = Some i"
| "as_int (PBool b) = Some (if b then 1 else 0)"
| "as_int v = None"

definition slice_to :: "int \<Rightarrow> 'a list \<Rightarrow> 'a list" where
  "slice_to n xs = (if 0 \<le> n then take (nat n) xs else take (nat (int (length xs) + n)) xs)"

definition add_joke_to_list :: "joke \<Rightarrow> app \<Rightarrow> exn + app" where
  "add_joke_to_list joke_data st =
     (let st = st \<lparr> last_jokes := joke_data # last_jokes st \<rparr> in
      case as_int (max_stored_jokes st) of
        None \<Rightarrow> Inl (TypeError ''>'' (max_stored_jokes st))
      | Some cap \<Rightarrow>
          Inr (if int (length (last_jokes st)) > cap
               then st \<lparr> last_jokes := slice_to cap (last_jokes st) \<rparr>
               else st))"

section \<open>The fetch-and-notify cycle\<close>

text \<open>
  What a cycle sends out: the three signals of \<open>SignalBridge\<close> and the call of the
  notification backend with its title, message and duration.
\<close>

datatype effect =
    Update_status pystr
  | Update_next_joke_time pystr
  | Add_joke joke
  | Notification pyval pyval pyval

text \<open>
  The outcome of \<open>requests.get(url)\<close> followed by \<open>response.json()\<close>: a JSON object, or
  an exception with its text (no connection, a body that is not JSON, a JSON body that is
  not an object and so has no \<open>get\<close>).
\<close>

datatype http_result =
    Failed pystr
  | Body dict

text \<open>
  What the loop thread finds outside itself when it takes a step: the window object, the
  clock (\<open>time.time()\<close>, in seconds), the remote API, the formatted wall-clock time of
  line 387, and whether the notification backend raises.
\<close>

record world =
  ui :: app
  clock :: real
  http :: "pystr \<Rightarrow> http_result"
  stamp :: pystr
  backend_error :: "pystr option"

definition py_len :: "pyval \<Rightarrow> exn + nat" where
  "py_len v =
     (case v of
        PStr s \<Rightarrow> Inr (length s)
      | PList xs \<Rightarrow> Inr (length xs)
      | PDict kvs \<Rightarrow> Inr (length kvs)
      | _ \<Rightarrow> Inl (TypeError ''len'' v))"

text \<open>
  \<open>show_notification\<close> (lines 412 to 475): the duration is read from the settings and the
  backend chosen at import time is called; an exception of the backend is caught and
  reported as a status. The choice between the backends is not modelled.
\<close>

definition show_notification :: "world \<Rightarrow> pyval \<Rightarrow> pyval \<Rightarrow> effect list" where
  "show_notification w title message =
     Notification title message
       (dict_get (settings (ui w)) (lit ''notification_duration'') (PInt 10)) #
     (case backend_error w of
        None \<Rightarrow> []
      | Some e \<Rightarrow> [Update_status (lit ''Notification error: '' @ e)])"

text \<open>Lines 374 to 383: the text of the joke and the title of the notification.\<close>

definition format_joke :: "runtime \<Rightarrow> dict \<Rightarrow> exn + pyval \<times> pyval" where
  "format_joke py joke_data =
     bind_exn (getitem joke_data (lit ''type'')) (\<lambda>type.
     if type = PStr (lit ''single'')
     then bind_exn (getitem joke_data (lit ''joke'')) (\<lambda>text.
          Inr (text, PStr (lit ''Joke Time!'')))
     else bind_exn (getitem joke_data (lit ''setup'')) (\<lambda>setup.
          bind_exn (getitem joke_data (lit ''delivery'')) (\<lambda>delivery.
          let text = PStr (py_format py setup @ lit [CHR 0x0A, CHR 0x0A] @ py_format py delivery)
          in bind_exn (py_len setup) (\<lambda>n.
             Inr (text, if n > 50 then PStr (lit ''Joke Time!'') else setup)))))"

definition fetch_and_show_joke :: "runtime \<Rightarrow> world \<Rightarrow> effect list" where
  "fetch_and_show_joke py w =
     (case request_url py (settings (ui w)) of
        Inl e \<Rightarrow> [Update_status (lit ''Error: '' @ str_exn py e)]
      | Inr url \<Rightarrow>
          (case http w url of
             Failed m \<Rightarrow> [Update_status (lit ''Error: '' @ m)]
           | Body joke_data \<Rightarrow>
               if truthy (dict_get joke_data (lit ''error'') (PBool False))
               then [Update_status (lit ''Error: '' @
                       py_format py (dict_get joke_data (lit ''message'') (PStr (lit ''Unknown error''))))]
               else
                 (case format_joke py joke_data of
                    Inl e \<Rightarrow> [Update_status (lit ''Error: '' @ str_exn py e)]
                  | Inr (text, notification_title) \<Rightarrow>
                      let joke_with_meta =
                            \<lparr> joke_text = text,
                              joke_category = dict_get joke_data (lit ''category'') (PStr []),
                              joke_time = stamp w,
                              joke_id = dict_get joke_data (lit ''id'') (PStr []) \<rparr>;
                          notification_message =
                            (if joke_data (lit ''type'') = Some (PStr (lit ''twopart''))
                             then dict_get joke_data (lit ''delivery'') PNone
                             else text)
                      in Add_joke joke_with_meta #
                         show_notification w notification_title notification_message @
                         [Update_status (lit ''Last joke sent successfully at '' @ stamp w)])))"

text \<open>
  The slots on the interface thread that receive the signals. The notification is shown
  by the backend and changes no field of the window.
\<close>

fun deliver :: "effect \<Rightarrow> app \<Rightarrow> exn + app" where
  "deliver (Update_status message) st = Inr (st \<lparr> status_label := message \<rparr>)"
| "deliver (Update_next_joke_time message) st = Inr (st \<lparr> next_joke_label := message \<rparr>)"
| "deliver (Add_joke joke_data) st = add_joke_to_list joke_data st"
| "deliver (Notification title message duration) st = Inr st"

fun deliver_all :: "effect list \<Rightarrow> app \<Rightarrow> exn + app" where
  "deliver_all [] st = Inr st"
| "deliver_all (e # es) st = bind_exn (deliver e st) (deliver_all es)"

section \<open>One step of the poll loop\<close>






section \<open>The settings file\<close>

text \<open>
  The file \<open>joke_notifier_settings.json\<close> as \<open>load_settings\<close> meets it: it does not
  exist; or it exists and reading it raises (it cannot be opened, it is not JSON, or the
  document is a number, a boolean, \<open>null\<close> or a non-empty string, which \<open>dict.update\<close>
  rejects), with the text of the exception; or it holds a JSON object. A document that is
  an array is not modelled. \<open>json.dump\<close> followed by \<open>json.load\<close> gives back an equal
  dictionary for the values of \<open>pyval\<close>, so the file holds the dictionary itself.
  \<open>write_error\<close> is the exception, if any, that opening the file for writing raises.
\<close>

datatype settings_file =
    Missing
  | Unreadable pystr
  | Document dict

record files =
  content :: settings_file
  write_error :: "pystr option"

definition save_settings_to_file :: "app \<Rightarrow> files \<Rightarrow> app \<times> files" where
  "save_settings_to_file st fs =
     (case write_error fs of
        None \<Rightarrow> (st, fs \<lparr> content := Document (settings st) \<rparr>)
      | Some e \<Rightarrow> (st \<lparr> status_label := lit ''Error saving settings: '' @ e \<rparr>, fs))"

text \<open>The body of the \<open>try\<close> block of \<open>load_settings\<close>, and the method with its handler.\<close>

definition read_settings :: "files \<Rightarrow> app \<Rightarrow> exn + app" where
  "read_settings fs st =
     (case content fs of
        Missing \<Rightarrow> Inr st
      | Unreadable e \<Rightarrow> Inl (Raised e)
      | Document loaded_settings \<Rightarrow> Inr (st \<lparr> settings := settings st ++ loaded_settings \<rparr>))"

definition load_settings :: "runtime \<Rightarrow> files \<Rightarrow> app \<Rightarrow> exn + app" where
  "load_settings py fs st =
     (case read_settings fs st of
        Inr st' \<Rightarrow> Inr st'
      | Inl e \<Rightarrow> Inr (st \<lparr> status_label := lit ''Error loading settings: '' @ str_exn py e \<rparr>))"

text \<open>
  \<open>JokeNotifier.__init__\<close> from line 104 on: the settings are loaded, the tray menu is
  set up, and the timer that starts the notifications is armed when \<open>autostart\<close> is set.
\<close>

definition init :: "runtime \<Rightarrow> files \<Rightarrow> exn + app" where
  "init py fs =
     bind_exn (load_settings py fs created) (\<lambda>st.
     let st = st \<lparr> tray_toggle_action := Some (lit ''Start Notifications'') \<rparr>
     in Inr (st \<lparr> autostart_timer :=
                    truthy (dict_get (settings st) (lit ''autostart'') (PBool False)) \<rparr>))"

section \<open>The settings dialog\<close>

text \<open>
  Python's \<open>==\<close> on the values of \<open>pyval\<close>: a boolean equals the integer 0 or 1, lists
  are compared item by item, dictionaries key by key.
\<close>

fun py_eq :: "pyval \<Rightarrow> pyval \<Rightarrow> bool" where
  "py_eq PNone PNone = True"
| "py_eq (PBool a) (PBool b) = (a = b)"
| "py_eq (PBool a) (PInt b) = ((if a then 1 else 0) = b)"
| "py_eq (PInt a) (PBool b) = (a = (if b then 1 else 0))"
| "py_eq (PInt a) (PInt b) = (a = b)"
| "py_eq (PStr a) (PStr b) = (a = b)"
| "py_eq (PList a) (PList b) = list_all2 py_eq a b"
| "py_eq (PDict a) (PDict b) =
     (length a = length b \<and>
      list_all (\<lambda>(k, v). list_ex (\<lambda>(k', v'). k = k' \<and> py_eq v v') b) a)"
| "py_eq v v' = False"

text \<open>
  The widgets of \<open>SettingsDialog\<close> when the user presses Save: the slider, the radio
  buttons and the check boxes, the category and language buttons in the order of their
  dictionaries.
\<close>

record dialog =
  frequency_slider :: int
  category_mode_any :: bool
  category_checkboxes :: "(pystr \<times> bool) list"
  safe_mode_cb :: bool
  joke_type_any :: bool
  joke_type_single :: bool
  language_buttons :: "(pystr \<times> bool) list"
  autostart_cb :: bool

definition get_settings :: "dict \<Rightarrow> dialog \<Rightarrow> dict" where
  "get_settings current_settings dlg =
     (let s = current_settings;
          s = s(lit ''frequency'' \<mapsto> PInt (frequency_slider dlg));
          s = (if category_mode_any dlg
               then s(lit ''categories'' \<mapsto> PList [PStr (lit ''Any'')])
               else let selected_categories = map fst (filter snd (category_checkboxes dlg));
                        selected_categories =
                          (if selected_categories = [] then [lit ''Misc''] else selected_categories)
                    in s(lit ''categories'' \<mapsto> PList (map PStr selected_categories)));
          s = s(lit ''safe_mode'' \<mapsto> PBool (safe_mode_cb dlg));
          s = s(lit ''joke_type'' \<mapsto> PStr
                 (if joke_type_any dlg then lit ''Any''
                  else if joke_type_single dlg then lit ''single''
                  else lit ''twopart''));
          s = (case find snd (language_buttons dlg) of
                 Some (lang_code, radio) \<Rightarrow> s(lit ''language'' \<mapsto> PStr lang_code)
               | None \<Rightarrow> s)
      in s(lit ''autostart'' \<mapsto> PBool (autostart_cb dlg)))"

text \<open>
  \<open>open_settings\<close> (lines 557 to 594). The dialog is either dismissed (\<open>None\<close>) or
  accepted with its widgets in some state. \<open>d.get(k)\<close> is \<open>None\<close> for a missing key.
\<close>

definition setting :: "dict \<Rightarrow> string \<Rightarrow> pyval" where
  "setting d k = dict_get d (lit k) PNone"

definition open_settings :: "dialog option \<Rightarrow> app \<Rightarrow> files \<Rightarrow> app \<times> files" where
  "open_settings outcome st fs =
     (case outcome of
        None \<Rightarrow> (st, fs)
      | Some dlg \<Rightarrow>
          let new_settings = get_settings (settings st) dlg;
              was_running = is_running st;
              settings_changed =
                (\<not> py_eq (setting (settings st) ''frequency'') (setting new_settings ''frequency'') \<or>
                 \<not> py_eq (setting (settings st) ''categories'') (setting new_settings ''categories'') \<or>
                 \<not> py_eq (setting (settings st) ''safe_mode'') (setting new_settings ''safe_mode'') \<or>
                 \<not> py_eq (setting (settings st) ''joke_type'') (setting new_settings ''joke_type'') \<or>
                 \<not> py_eq (setting (settings st) ''language'') (setting new_settings ''language'') \<or>
                 \<not> py_eq (dict_get (settings st) (lit ''autostart'') (PBool False))
                          (setting new_settings ''autostart''));
              st = st \<lparr> settings := new_settings \<rparr>;
              st = st \<lparr> max_stored_jokes := dict_get (settings st) (lit ''max_history'') (PInt 15) \<rparr>;
              st = (if was_running \<and> settings_changed
                    then start_notifications (stop_notifications st) else st)
          in case save_settings_to_file st fs of
               (st, fs) \<Rightarrow> (st \<lparr> status_label := lit ''Settings saved successfully'' \<rparr>, fs))"

section \<open>Cycles seen from the interface thread\<close>

text \<open>
  One fetch-and-notify cycle together with the slots that its signals reach, and \<open>n\<close>
  cycles in a row, each in the world that \<open>env\<close> builds around the current window.
\<close>

definition fetch_cycle :: "runtime \<Rightarrow> world \<Rightarrow> exn + app" where
  "fetch_cycle py w = deliver_all (fetch_and_show_joke py w) (ui w)"

fun cycles :: "runtime \<Rightarrow> (app \<Rightarrow> world) \<Rightarrow> nat \<Rightarrow> app \<Rightarrow> exn + app" where
  "cycles py env 0 st = Inr st"
| "cycles py env (Suc n) st = bind_exn (fetch_cycle py (env st)) (cycles py env n)"


section \<open>Sample inputs\<close>

text \<open>Responses of the API in its three shapes, and worlds that answer with them.\<close>

definition single_body :: dict where
  "single_body =
     [lit ''error'' \<mapsto> PBool False,
      lit ''category'' \<mapsto> PStr (lit ''Pun''),
      lit ''type'' \<mapsto> PStr (lit ''single''),
      lit ''joke'' \<mapsto> PStr (lit ''I used to be a banker, but I lost interest.''),
      lit ''id'' \<mapsto> PInt 42]"

definition twopart_body :: dict where
  "twopart_body =
     [lit ''error'' \<mapsto> PBool False,
      lit ''category'' \<mapsto> PStr (lit ''Programming''),
      lit ''type'' \<mapsto> PStr (lit ''twopart''),
      lit ''setup'' \<mapsto> PStr (lit ''Why do programmers prefer dark mode?''),
      lit ''delivery'' \<mapsto> PStr (lit ''Because light attracts bugs.''),
      lit ''id'' \<mapsto> PInt 7]"

definition error_body :: dict where
  "error_body =
     [lit ''error'' \<mapsto> PBool True,
      lit ''message'' \<mapsto> PStr (lit ''No matching joke found'')]"

definition answering :: "dict \<Rightarrow> app \<Rightarrow> world" where
  "answering body st =
     \<lparr> ui = st, clock = 100, http = (\<lambda>url. Body body),
       stamp = lit ''09:30 AM'', backend_error = None \<rparr>"


text \<open>Settings files: one that sets only the history size, one that is not JSON.\<close>

definition small_cap_file :: files where
  "small_cap_file =
     \<lparr> content = Document [lit ''max_history'' \<mapsto> PInt 2], write_error = None \<rparr>"

definition broken_file :: files where
  "broken_file =
     \<lparr> content = Unreadable (lit ''Expecting value: line 1 column 1 (char 0)''),
       write_error = None \<rparr>"

definition missing_file :: files where
  "missing_file = \<lparr> content = Missing, write_error = None \<rparr>"

text \<open>The request that the default settings lead to.\<close>

definition default_request :: pystr where
  "default_request =
     lit ''https://v2.jokeapi.dev/joke/Any?blacklistFlags=religious,racist,sexist,explicit&safe-mode''"

text \<open>Settings that differ from the defaults, and a dialog saved as it opens on the defaults.\<close>

definition twopart_settings :: dict where
  "twopart_settings =
     default_settings
       (lit ''frequency'' \<mapsto> PInt 5,
        lit ''categories'' \<mapsto> PList [PStr (lit ''Programming''), PStr (lit ''Pun'')],
        lit ''joke_type'' \<mapsto> PStr (lit ''twopart''))"

definition unchanged_dialog :: dialog where
  "unchanged_dialog =
     \<lparr> frequency_slider = 30,
       category_mode_any = True,
       category_checkboxes = [(lit ''Programming'', False), (lit ''Misc'', False), (lit ''Pun'', False)],
       safe_mode_cb = True,
       joke_type_any = True,
       joke_type_single = False,
       language_buttons = [(lit ''en'', True), (lit ''de'', False)],
       autostart_cb = False \<rparr>"





section \<open>Properties of the request URL\<close>

lemma str_items_map: "str_items (map PStr cs) = Inr cs"
  by (induction cs) simp_all

lemma is_strD: "is_str v \<Longrightarrow> \<exists>s. v = Some (PStr s)"
  by (cases v rule: is_str.cases) simp_all

lemma url_shape:
  assumes "s (lit ''categories'') = Some (PList (map PStr cs))"
    and "s (lit ''safe_mode'') = Some sm"
    and "s (lit ''joke_type'') = Some (PStr t)"
    and "s (lit ''language'') = Some lg"
  shows "request_url py s = Inr (base_url @ join_strs (lit '','') cs @ blacklist_query
       @ (if truthy sm then lit ''&safe-mode'' else [])
       @ (if t \<noteq> lit ''Any'' then lit ''&type='' @ lower py t else [])
       @ (if lg \<noteq> PStr (lit ''en'') then lit ''&lang='' @ py_format py lg else []))"
  using assms by (simp add: request_url_def getitem_def str_items_map Let_def)

lemma url_path_query: "of_char CHR ''?'' \<notin> set p \<Longrightarrow> url_path (p @ blacklist_query @ rest) = p"
  by (auto simp: url_path_def blacklist_query_def lit_def takeWhile_tail)

lemma default_is_settings: "is_settings default_settings"
  by (simp add: is_settings_def default_settings_def lit_def)

lemma default_url: "request_url sample_runtime default_settings = Inr default_request"
  by (simp add: request_url_def default_settings_def getitem_def lit_def base_url_def
      blacklist_query_def default_request_def)

text \<open>
  Claim C1, as the specification states it, fails. With the default settings, whose
  categories are exactly \<open>["Any"]\<close>, the path of the request URL is not the bare base
  endpoint: it ends with the segment \<open>Any\<close>.
\<close>

theorem any_category_counterexample:
  "default_settings (lit ''categories'') = Some (PList [PStr (lit ''Any'')]) \<and>
   map_sum id url_path (request_url sample_runtime default_settings) =
     Inr (lit ''https://v2.jokeapi.dev/joke/Any'') \<and>
   lit ''https://v2.jokeapi.dev/joke/Any'' \<noteq> base_url"
  by (simp add: default_url)
     (simp add: default_settings_def default_request_def url_path_def base_url_def lit_def)

text \<open>
  Claim C1, amended. For every Settings whose categories list is exactly \<open>["Any"]\<close> a
  request URL is built, it starts with the base endpoint followed by the category segment
  \<open>Any\<close> and the blacklist flags, and its path is the base endpoint followed by \<open>Any\<close>:
  the name is passed on to the API, not left out.
\<close>

theorem any_category_url:
  assumes "is_settings s" and "s (lit ''categories'') = Some (PList [PStr (lit ''Any'')])"
  shows "\<exists>url. request_url py s = Inr url \<and>
               prefix (base_url @ lit ''Any'' @ blacklist_query) url \<and>
               url_path url = base_url @ lit ''Any''"
proof -
  from assms(1) obtain b t lg where sm: "s (lit ''safe_mode'') = Some (PBool b)"
    and t: "s (lit ''joke_type'') = Some (PStr t)"
    and lg: "s (lit ''language'') = Some (PStr lg)"
    unfolding is_settings_def by (auto dest!: is_strD elim: is_bool.elims)
  have cats: "s (lit ''categories'') = Some (PList (map PStr [lit ''Any'']))"
    using assms(2) by simp
  have q: "of_char CHR ''?'' \<notin> set (base_url @ lit ''Any'')"
    by (simp add: base_url_def lit_def)
  show ?thesis
    unfolding url_shape [OF cats sm t lg]
    using url_path_query [OF q] by simp
qed

text \<open>
  The default settings are such Settings: their request URL has the path that ends in \<open>Any\<close>.
\<close>

theorem any_category_url_witness:
  "is_settings default_settings \<and>
   default_settings (lit ''categories'') = Some (PList [PStr (lit ''Any'')]) \<and>
   (\<exists>url. request_url sample_runtime default_settings = Inr url \<and>
          prefix (base_url @ lit ''Any'' @ blacklist_query) url \<and>
          url_path url = base_url @ lit ''Any'')"
proof -
  have c: "default_settings (lit ''categories'') = Some (PList [PStr (lit ''Any'')])"
    by (simp add: default_settings_def lit_def)
  show ?thesis
    using any_category_url [OF default_is_settings c, of sample_runtime] default_is_settings c
    by simp
qed



section \<open>Properties of starting and stopping\<close>




section \<open>Properties of the poll loop\<close>

























section \<open>Properties of the fetch-and-notify cycle\<close>

lemma blank_line: "lit [CHR 0x0A, CHR 0x0A] = [10, 10]"
  by (simp add: lit_def)

text \<open>
  Claim C4. For a response without error flag whose type is \<open>twopart\<close>, with setup
  \<open>S\<close> and delivery \<open>D\<close>: the text of the joke record is \<open>S\<close>, a blank line (two line
  feeds) and \<open>D\<close>; the title of the notification is \<open>S\<close> when \<open>S\<close> has at most 50
  characters and \<open>Joke Time!\<close> otherwise; the body of the notification is \<open>D\<close>.
\<close>

theorem twopart_joke:
  assumes "request_url py (settings (ui w)) = Inr url"
    and "http w url = Body joke_data"
    and "\<not> truthy (dict_get joke_data (lit ''error'') (PBool False))"
    and "joke_data (lit ''type'') = Some (PStr (lit ''twopart''))"
    and "joke_data (lit ''setup'') = Some (PStr S)"
    and "joke_data (lit ''delivery'') = Some (PStr D)"
  shows "fetch_and_show_joke py w =
           Add_joke \<lparr> joke_text = PStr (S @ [10, 10] @ D),
                      joke_category = dict_get joke_data (lit ''category'') (PStr []),
                      joke_time = stamp w,
                      joke_id = dict_get joke_data (lit ''id'') (PStr []) \<rparr> #
           show_notification w
             (if length S \<le> 50 then PStr S else PStr (lit ''Joke Time!'')) (PStr D) @
           [Update_status (lit ''Last joke sent successfully at '' @ stamp w)]"
proof -
  have ne: "lit ''twopart'' \<noteq> lit ''single''"
    by (simp add: lit_def)
  have f: "format_joke py joke_data =
             Inr (PStr (S @ [10, 10] @ D),
                  if length S \<le> 50 then PStr S else PStr (lit ''Joke Time!''))"
    using assms(4-6) ne
    by (simp add: format_joke_def getitem_def py_format_def py_len_def blank_line)
  show ?thesis
    using assms(1-4,6) by (simp add: fetch_and_show_joke_def f dict_get_def)
qed

text \<open>
  A world that answers with a two-part joke whose setup has fewer than 50 characters.
\<close>

theorem twopart_joke_witness:
  "fetch_and_show_joke sample_runtime (answering twopart_body created) =
     [Add_joke \<lparr> joke_text = PStr (lit ''Why do programmers prefer dark mode?'' @ [10, 10] @
                                  lit ''Because light attracts bugs.''),
                 joke_category = PStr (lit ''Programming''),
                 joke_time = lit ''09:30 AM'',
                 joke_id = PInt 7 \<rparr>,
      Notification (PStr (lit ''Why do programmers prefer dark mode?''))
        (PStr (lit ''Because light attracts bugs.'')) (PInt 10),
      Update_status (lit ''Last joke sent successfully at 09:30 AM'')]"
proof -
  let ?w = "answering twopart_body created"
  have u: "request_url sample_runtime (settings (ui ?w)) =
             Inr default_request"
    by (simp add: answering_def created_def default_url)
  have h: "http ?w default_request = Body twopart_body"
    by (simp add: answering_def)
  have e: "\<not> truthy (dict_get twopart_body (lit ''error'') (PBool False))"
    by (simp add: twopart_body_def dict_get_def lit_def)
  have t: "twopart_body (lit ''type'') = Some (PStr (lit ''twopart''))"
    by (simp add: twopart_body_def lit_def)
  have s: "twopart_body (lit ''setup'') = Some (PStr (lit ''Why do programmers prefer dark mode?''))"
    by (simp add: twopart_body_def lit_def)
  have d: "twopart_body (lit ''delivery'') = Some (PStr (lit ''Because light attracts bugs.''))"
    by (simp add: twopart_body_def lit_def)
  have n: "length (lit ''Why do programmers prefer dark mode?'') \<le> 50"
    by (simp add: lit_def)
  have c: "dict_get twopart_body (lit ''category'') (PStr []) = PStr (lit ''Programming'')"
    and i: "dict_get twopart_body (lit ''id'') (PStr []) = PInt 7"
    by (simp_all add: twopart_body_def dict_get_def lit_def)
  have k: "show_notification ?w (PStr (lit ''Why do programmers prefer dark mode?''))
             (PStr (lit ''Because light attracts bugs.'')) =
           [Notification (PStr (lit ''Why do programmers prefer dark mode?''))
              (PStr (lit ''Because light attracts bugs.'')) (PInt 10)]"
    by (simp add: show_notification_def answering_def created_def default_settings_def
        dict_get_def lit_def)
  have m: "stamp ?w = lit ''09:30 AM''"
    by (simp add: answering_def)
  show ?thesis
    using twopart_joke [OF u h e t s d] n
    by (simp add: c i k m) (simp add: lit_def)
qed

text \<open>
  Claim C5. For a response whose body has \<open>error\<close> true and message \<open>M\<close>, the cycle
  sends exactly one signal, the status \<open>Error: M\<close>: no joke record and no notification.
  Delivered to the window, it changes the status label and nothing else, so the history
  is unchanged.
\<close>

theorem api_error:
  assumes "request_url py (settings (ui w)) = Inr url"
    and "http w url = Body joke_data"
    and "joke_data (lit ''error'') = Some (PBool True)"
    and "joke_data (lit ''message'') = Some (PStr M)"
  shows "fetch_and_show_joke py w = [Update_status (lit ''Error: '' @ M)] \<and>
         deliver_all (fetch_and_show_joke py w) st =
           Inr (st \<lparr> status_label := lit ''Error: '' @ M \<rparr>) \<and>
         map_sum id last_jokes (deliver_all (fetch_and_show_joke py w) st) = Inr (last_jokes st)"
  using assms by (simp add: fetch_and_show_joke_def dict_get_def py_format_def)

text \<open>
  A world that answers with an error, and the freshly created window.
\<close>

theorem api_error_witness:
  "fetch_and_show_joke sample_runtime (answering error_body created) =
     [Update_status (lit ''Error: No matching joke found'')] \<and>
   map_sum id last_jokes
     (deliver_all (fetch_and_show_joke sample_runtime (answering error_body created)) created) =
     Inr []"
proof -
  let ?w = "answering error_body created"
  have u: "request_url sample_runtime (settings (ui ?w)) =
             Inr default_request"
    by (simp add: answering_def created_def default_url)
  have h: "http ?w default_request = Body error_body"
    by (simp add: answering_def)
  have e: "error_body (lit ''error'') = Some (PBool True)"
    by (simp add: error_body_def lit_def)
  have m: "error_body (lit ''message'') = Some (PStr (lit ''No matching joke found''))"
    by (simp add: error_body_def lit_def)
  have l: "last_jokes created = []"
    by (simp add: created_def)
  show ?thesis
    using api_error [OF u h e m, of created] l
    by (simp add: lit_def)
qed

section \<open>Properties of the history\<close>

lemma add_joke_capped:
  assumes "as_int (max_stored_jokes st) = Some c" and "0 \<le> c"
  shows "add_joke_to_list j st = Inr (st \<lparr> last_jokes := take (nat c) (j # last_jokes st) \<rparr>)"
proof (cases "int (Suc (length (last_jokes st))) > c")
  case True
  then show ?thesis using assms by (simp add: add_joke_to_list_def slice_to_def Let_def)
next
  case False
  then have "take (nat c) (j # last_jokes st) = j # last_jokes st"
    by (intro take_all) simp
  then show ?thesis using assms False by (simp add: add_joke_to_list_def Let_def)
qed

lemma add_jokes_capped:
  assumes "as_int (max_stored_jokes st) = Some c" and "0 \<le> c"
    and "int (length (last_jokes st)) \<le> c"
  shows "deliver_all (map Add_joke js) st =
           Inr (st \<lparr> last_jokes := take (nat c) (rev js @ last_jokes st) \<rparr>)"
  using assms
proof (induction js arbitrary: st)
  case Nil
  then show ?case by simp
next
  case (Cons j js)
  let ?st = "st \<lparr> last_jokes := take (nat c) (j # last_jokes st) \<rparr>"
  have "deliver_all (map Add_joke js) ?st =
          Inr (?st \<lparr> last_jokes := take (nat c) (rev js @ last_jokes ?st) \<rparr>)"
    using Cons.prems by (intro Cons.IH) simp_all
  moreover have "take (nat c) (rev js @ take (nat c) (j # last_jokes st)) =
                 take (nat c) (rev js @ j # last_jokes st)"
    by (simp add: take_append min_def)
  ultimately show ?case
    using Cons.prems by (simp add: add_joke_capped)
qed

lemma history_bounded_by_cap:
  assumes "as_int (max_stored_jokes st) = Some c" and "0 \<le> c" and "last_jokes st = []"
    and "int (length js) > c"
  shows "\<exists>st'. deliver_all (map Add_joke js) st = Inr st' \<and>
               last_jokes st' = take (nat c) (rev js) \<and> int (length (last_jokes st')) = c"
proof -
  have "deliver_all (map Add_joke js) st =
          Inr (st \<lparr> last_jokes := take (nat c) (rev js @ last_jokes st) \<rparr>)"
    using assms(1-3) by (intro add_jokes_capped) simp_all
  then show ?thesis using assms(2-4) by simp
qed

text \<open>
  Claim C6 fails on the code. \<open>add_joke_to_list\<close> bounds the history by the field
  \<open>max_stored_jokes\<close>, and for that bound the claim holds
  (\<open>history_bounded_by_cap\<close>). But \<open>load_settings\<close> does not copy the \<open>max_history\<close> it
  reads into \<open>max_stored_jokes\<close>, which only \<open>open_settings\<close> does. With a settings file
  that sets \<open>max_history\<close> to 2, three successful cycles from the empty history leave three
  records in it: the setting is 2, the bound in use is still 15.
\<close>

theorem history_cap_after_load:
  "map_sum id (\<lambda>st. (settings st (lit ''max_history''), max_stored_jokes st, length (last_jokes st)))
     (bind_exn (init sample_runtime small_cap_file)
        (cycles sample_runtime (answering single_body) (Suc (Suc (Suc 0))))) =
   Inr (Some (PInt 2), PInt 15, 3)"
  by (simp add: init_def load_settings_def read_settings_def small_cap_file_def created_def
      fetch_cycle_def fetch_and_show_joke_def answering_def single_body_def request_url_def
      default_settings_def getitem_def dict_get_def format_joke_def show_notification_def
      add_joke_to_list_def Let_def lit_def base_url_def blacklist_query_def map_add_def)

section \<open>Properties of the settings file\<close>

lemma default_dom: "dom default_settings = set schema_keys"
  by (auto simp: default_settings_def schema_keys_def split: if_splits)

lemma add_over_defaults: "set schema_keys \<subseteq> dom s \<Longrightarrow> default_settings ++ s = s"
proof
  fix k
  assume a: "set schema_keys \<subseteq> dom s"
  show "(default_settings ++ s) k = s k"
  proof (cases "s k")
    case None
    then have "k \<notin> dom default_settings" using a default_dom by auto
    then show ?thesis using None by (simp add: map_add_def domIff)
  next
    case (Some v)
    then show ?thesis by (simp add: map_add_def)
  qed
qed

text \<open>
  Claim C7. For every Settings \<open>s\<close> (a dictionary that has every key of the schema), when
  the file can be written, saving \<open>s\<close> stores it in the file, and the settings of a window
  constructed from that file are \<open>s\<close>.
\<close>

theorem settings_round_trip:
  assumes "write_error fs = None" and "set schema_keys \<subseteq> dom (settings st)"
  shows "content (snd (save_settings_to_file st fs)) = Document (settings st) \<and>
         map_sum id settings (init py (snd (save_settings_to_file st fs))) = Inr (settings st)"
  using assms(1) add_over_defaults [OF assms(2)]
  by (simp add: save_settings_to_file_def init_def load_settings_def read_settings_def
      created_def Let_def)

text \<open>
  Settings that differ from the defaults, saved where no file was and loaded again.
\<close>

theorem settings_round_trip_witness:
  "map_sum id settings
     (init sample_runtime
        (snd (save_settings_to_file (created \<lparr> settings := twopart_settings \<rparr>) missing_file))) =
   Inr twopart_settings"
proof -
  have w: "write_error missing_file = None"
    by (simp add: missing_file_def)
  have k: "set schema_keys \<subseteq> dom (settings (created \<lparr> settings := twopart_settings \<rparr>))"
    by (auto simp: twopart_settings_def default_dom [symmetric])
  show ?thesis
    using settings_round_trip [OF w k, of sample_runtime] by simp
qed

text \<open>
  Claim C8. \<open>load_settings\<close> never raises: it always returns a window. When the file is
  missing the window is unchanged, so on the freshly created window the settings are the
  defaults. When reading the file raises, the status label reports the exception and the
  settings are unchanged. When the file holds an object, every key of the file has the
  value of the file and every other key keeps its previous value.
\<close>

theorem load_settings_never_raises:
  "(\<exists>st'. load_settings py fs st = Inr st') \<and>
   settings created = default_settings \<and>
   (content fs = Missing \<longrightarrow> load_settings py fs st = Inr st) \<and>
   (\<forall>e. content fs = Unreadable e \<longrightarrow>
        load_settings py fs st =
          Inr (st \<lparr> status_label := lit ''Error loading settings: '' @ e \<rparr>)) \<and>
   (\<forall>d. content fs = Document d \<longrightarrow>
        (\<exists>st'. load_settings py fs st = Inr st' \<and>
           (\<forall>k. settings st' k = (case d k of Some v \<Rightarrow> Some v | None \<Rightarrow> settings st k))))"
  by (cases "content fs")
     (simp_all add: load_settings_def read_settings_def str_exn_def map_add_def created_def)

text \<open>
  A missing file, a file that is not JSON and a file with one key, each loaded into the
  freshly created window.
\<close>

theorem load_settings_never_raises_witness:
  "load_settings sample_runtime missing_file created = Inr created \<and>
   load_settings sample_runtime broken_file created =
     Inr (created \<lparr> status_label :=
            lit ''Error loading settings: Expecting value: line 1 column 1 (char 0)'' \<rparr>) \<and>
   map_sum id (\<lambda>st. (settings st (lit ''max_history''), settings st (lit ''frequency'')))
     (load_settings sample_runtime small_cap_file created) = Inr (Some (PInt 2), Some (PInt 30))"
proof -
  have m: "content missing_file = Missing"
    by (simp add: missing_file_def)
  have b: "content broken_file = Unreadable (lit ''Expecting value: line 1 column 1 (char 0)'')"
    by (simp add: broken_file_def)
  have d: "content small_cap_file = Document [lit ''max_history'' \<mapsto> PInt 2]"
    by (simp add: small_cap_file_def)
  from load_settings_never_raises [of sample_runtime small_cap_file created] d
  obtain st' where l: "load_settings sample_runtime small_cap_file created = Inr st'"
    and s: "\<And>k. settings st' k =
              (case [lit ''max_history'' \<mapsto> PInt 2] k of Some v \<Rightarrow> Some v
               | None \<Rightarrow> settings created k)"
    by auto
  have "settings st' (lit ''max_history'') = Some (PInt 2)"
    and "settings st' (lit ''frequency'') = Some (PInt 30)"
    by (simp_all add: s created_def default_settings_def lit_def)
  then show ?thesis
    using load_settings_never_raises [of sample_runtime missing_file created] m
      load_settings_never_raises [of sample_runtime broken_file created] b l
    by (simp add: lit_def)
qed

text \<open>
  Claim C10. \<open>load_settings\<close> leaves \<open>max_stored_jokes\<close> as it was, which is 15 in the
  freshly created window, also when the file holds another \<open>max_history\<close>: that value
  arrives in the settings only. An accepted settings dialog sets \<open>max_stored_jokes\<close> to the
  \<open>max_history\<close> of the current settings.
\<close>

theorem load_keeps_history_cap:
  "(\<exists>st'. load_settings py fs st = Inr st' \<and> max_stored_jokes st' = max_stored_jokes st) \<and>
   max_stored_jokes created = PInt 15 \<and>
   (\<forall>d v. content fs = Document d \<longrightarrow> d (lit ''max_history'') = Some v \<longrightarrow>
        (\<exists>st'. load_settings py fs created = Inr st' \<and>
               settings st' (lit ''max_history'') = Some v \<and> max_stored_jokes st' = PInt 15)) \<and>
   max_stored_jokes (fst (open_settings (Some dlg) st fs')) =
     dict_get (settings st) (lit ''max_history'') (PInt 15)"
proof -
  have 1: "\<exists>st'. load_settings py fs st = Inr st' \<and> max_stored_jokes st' = max_stored_jokes st"
    by (cases "content fs") (simp_all add: load_settings_def read_settings_def)
  have 2: "\<forall>d v. content fs = Document d \<longrightarrow> d (lit ''max_history'') = Some v \<longrightarrow>
        (\<exists>st'. load_settings py fs created = Inr st' \<and>
               settings st' (lit ''max_history'') = Some v \<and> max_stored_jokes st' = PInt 15)"
    by (simp add: load_settings_def read_settings_def created_def)
  have g: "get_settings (settings st) dlg (lit ''max_history'') = settings st (lit ''max_history'')"
    by (simp add: get_settings_def Let_def lit_def split: option.splits prod.splits)
  have 3: "max_stored_jokes (fst (open_settings (Some dlg) st fs')) =
     dict_get (settings st) (lit ''max_history'') (PInt 15)"
    using g
    by (simp add: open_settings_def Let_def save_settings_to_file_def dict_get_def
        start_notifications_def stop_notifications_def split: option.splits prod.splits)
  have 4: "max_stored_jokes created = PInt 15"
    by (simp add: created_def)
  show ?thesis using 1 2 3 4 by blast
qed

text \<open>
  A file with \<open>max_history\<close> 2: after loading, the setting is 2 and the bound 15; after a
  saved dialog, the bound is 2.
\<close>

theorem load_keeps_history_cap_witness:
  "map_sum id (\<lambda>st. (settings st (lit ''max_history''), max_stored_jokes st))
     (load_settings sample_runtime small_cap_file created) = Inr (Some (PInt 2), PInt 15) \<and>
   map_sum id (\<lambda>st. max_stored_jokes (fst (open_settings (Some unchanged_dialog) st missing_file)))
     (load_settings sample_runtime small_cap_file created) = Inr (PInt 2)"
proof -
  have d: "content small_cap_file = Document [lit ''max_history'' \<mapsto> PInt 2]"
    by (simp add: small_cap_file_def)
  have v: "[lit ''max_history'' \<mapsto> PInt 2] (lit ''max_history'') = Some (PInt 2)"
    by simp
  from load_keeps_history_cap [of sample_runtime small_cap_file created] d v
  obtain st' where l: "load_settings sample_runtime small_cap_file created = Inr st'"
    and s: "settings st' (lit ''max_history'') = Some (PInt 2)"
    and c: "max_stored_jokes st' = PInt 15"
    by blast
  have "max_stored_jokes (fst (open_settings (Some unchanged_dialog) st' missing_file)) = PInt 2"
    using load_keeps_history_cap [of sample_runtime small_cap_file st' unchanged_dialog missing_file] s
    by (simp add: dict_get_def)
  then show ?thesis using l s c by simp
qed

end
